theory Spec2Isabelle
  imports Complex_Main
begin

section \<open>JavaScript values\<close>

text \<open>
  A JavaScript number is a finite value or one of the three non-finite ones. Finite
  values are rationals with exact arithmetic: rounding to 64-bit floating point is
  outside this model.
\<close>

datatype jsnum = Finite rat | NaN | PosInfinity | NegInfinity

text \<open>\<^verbatim>\<open>Number.isFinite\<close>\<close>

fun isFinite :: "jsnum \<Rightarrow> bool" where
  "isFinite (Finite v) = True"
| "isFinite NaN = False"
| "isFinite PosInfinity = False"
| "isFinite NegInfinity = False"

text \<open>
  The values the handlers receive from \<^verbatim>\<open>JSON.parse\<close> (ai.js returns the parsed value
  as it is, with no check of its shape), and \<^verbatim>\<open>undefined\<close> for a missing property.
\<close>

datatype jsval =
    JUndefined
  | JNull
  | JBool bool
  | JNum jsnum
  | JStr string
  | JArr "jsval list"
  | JObj "(string \<times> jsval) list"

datatype jsexn =
    TypeError
  | RangeError
  | SyntaxError
  | CapabilityError
  | DownloadFailed
  | FileSystemError
  | TranscodeFailed

text \<open>
  Property read \<^verbatim>\<open>v.k\<close>. It throws on \<^verbatim>\<open>null\<close> and \<^verbatim>\<open>undefined\<close>; on an object, which
  lists each of its keys once, it is the property's value or \<^verbatim>\<open>undefined\<close>; on the other
  values it is \<^verbatim>\<open>undefined\<close> for every key the program reads (none of them is a built-in
  property).
\<close>

fun getProp :: "jsval \<Rightarrow> string \<Rightarrow> jsexn + jsval" where
  "getProp JUndefined k = Inl TypeError"
| "getProp JNull k = Inl TypeError"
| "getProp (JObj kvs) k = Inr (case map_of kvs k of None \<Rightarrow> JUndefined | Some v \<Rightarrow> v)"
| "getProp (JBool b) k = Inr JUndefined"
| "getProp (JNum n) k = Inr JUndefined"
| "getProp (JStr s) k = Inr JUndefined"
| "getProp (JArr vs) k = Inr JUndefined"

text \<open>Truthiness, as \<^verbatim>\<open>!v\<close>, \<^verbatim>\<open>v || d\<close> and \<^verbatim>\<open>if (v)\<close> read it.\<close>

fun truthy :: "jsval \<Rightarrow> bool" where
  "truthy JUndefined = False"
| "truthy JNull = False"
| "truthy (JBool b) = b"
| "truthy (JNum (Finite v)) = (v \<noteq> 0)"
| "truthy (JNum NaN) = False"
| "truthy (JNum PosInfinity) = True"
| "truthy (JNum NegInfinity) = True"
| "truthy (JStr s) = (s \<noteq> [])"
| "truthy (JArr vs) = True"
| "truthy (JObj kvs) = True"

text \<open>\<^verbatim>\<open>s.repeat(n)\<close>: a negative count throws a RangeError.\<close>

definition repeat :: "'a list \<Rightarrow> int \<Rightarrow> jsexn + 'a list" where
  "repeat s n = (if n < 0 then Inl RangeError else Inr (concat (replicate (nat n) s)))"

section \<open>Score and ramyun level (index.js)\<close>

text \<open>
  \<^verbatim>\<open>Math.round\<close> rounds to the nearest integer, a half towards plus infinity.
\<close>

definition math_round :: "rat \<Rightarrow> int" where
  "math_round x = \<lfloor>x + 1 / 2\<rfloor>"

datatype block = Filled | Empty

text \<open>
  \<^verbatim>\<open>buildProgressBar(score)\<close>. The two one-character strings are the constructors
  \<^const>\<open>Filled\<close> (black square) and \<^const>\<open>Empty\<close> (white square); string concatenation
  happens only when both \<^verbatim>\<open>repeat\<close> calls have returned.
\<close>

definition buildProgressBar :: "rat \<Rightarrow> jsexn + block list" where
  "buildProgressBar score =
     (let s = max 0 (min 500 score);
          totalBlocks = 10;
          filled = math_round ((s / 500) * of_int totalBlocks);
          empty = totalBlocks - filled
      in case repeat [Filled] filled of
           Inl e \<Rightarrow> Inl e
         | Inr l \<Rightarrow> (case repeat [Empty] empty of
                       Inl e \<Rightarrow> Inl e
                     | Inr r \<Rightarrow> Inr (l @ r)))"

text \<open>
  \<^verbatim>\<open>getRamyunLevelMeta(score)\<close>. The returned object's \<^verbatim>\<open>description\<close> is a constant
  text fixed by the branch, like \<^verbatim>\<open>name\<close> and \<^verbatim>\<open>imageUrl\<close>; it is left out.
\<close>

record levelMeta =
  name :: string
  imageUrl :: string

definition getRamyunLevelMeta :: "rat \<Rightarrow> levelMeta" where
  "getRamyunLevelMeta score =
     (let s = max 0 (min 500 score) in
      if s < 100 then
        \<lparr>name = ''Ramyun Mild'', imageUrl = ''https://i.ibb.co/LKNMnbC/ramyunmild.png''\<rparr>
      else if s < 200 then
        \<lparr>name = ''Ramyun Original'', imageUrl = ''https://i.ibb.co/V0TxghVh/neoguriramyun.jpg''\<rparr>
      else if s < 300 then
        \<lparr>name = ''Ramyun Spicy'', imageUrl = ''https://i.ibb.co/bRHrxBPk/jinramyon.jpg''\<rparr>
      else if s < 400 then
        \<lparr>name = ''Ramyun Very Spicy'', imageUrl = ''https://i.ibb.co/QSDtykx/shinramyon.jpg''\<rparr>
      else
        \<lparr>name = ''Ramyun Nuclear'', imageUrl = ''https://i.ibb.co/3mpfbWn0/buldakramyon.jpg''\<rparr>)"

section \<open>Audio ingestion (ai.js)\<close>

text \<open>
  The two scratch files of one call, \<^verbatim>\<open>tmp/input-<ts>.oga\<close> and \<^verbatim>\<open>tmp/output-<ts>.mp3\<close>
  under the working directory, named by the timestamp \<^verbatim>\<open>ts = Date.now()\<close>. The file
  system is the set of scratch files that exist.
\<close>

datatype scratch = InputOga int | OutputMp3 int

type_synonym fsys = "scratch set"

text \<open>What \<^verbatim>\<open>fetch\<close> resolves to: the \<^verbatim>\<open>ok\<close> flag and the outcome of \<^verbatim>\<open>arrayBuffer()\<close>.\<close>

record response =
  ok :: bool
  arrayBuffer :: "jsexn + nat list"

text \<open>
  How ffmpeg ends: the \<^verbatim>\<open>end\<close> event after writing the output file, or the \<^verbatim>\<open>error\<close>
  event, with or without an output file left behind.
\<close>

datatype ffmpegOutcome = Converted | ConversionError bool

text \<open>
  The outcomes of the external calls of one \<^verbatim>\<open>transcribeAudioFromUrl\<close> call. A rejected
  \<^verbatim>\<open>writeFile\<close> is taken to leave no file.
\<close>

record audioEnv =
  fetch :: "string \<Rightarrow> jsexn + response"
  mkdir :: "jsexn option"
  now :: int
  writeFile :: "scratch \<Rightarrow> jsexn option"
  ffmpeg :: "scratch \<Rightarrow> scratch \<Rightarrow> ffmpegOutcome"
  transcriptionsCreate :: "scratch \<Rightarrow> jsexn + jsval"
  unlinkRejects :: "scratch \<Rightarrow> bool"

definition isSpace :: "char \<Rightarrow> bool" where
  "isSpace c = (c \<in> {CHR '' '', CHR 0x09, CHR 0x0A, CHR 0x0B, CHR 0x0C, CHR 0x0D})"

text \<open>\<^verbatim>\<open>String.prototype.trim\<close>, on the whitespace characters of ASCII.\<close>

definition trim :: "string \<Rightarrow> string" where
  "trim s = rev (dropWhile isSpace (rev (dropWhile isSpace s)))"

text \<open>
  \<^verbatim>\<open>fs.promises.unlink(p).catch(() => {})\<close>: the file is removed unless the unlink
  rejects; a rejection is swallowed. The promise is not awaited; its effect is applied
  here at once.
\<close>

definition unlink :: "audioEnv \<Rightarrow> scratch \<Rightarrow> fsys \<Rightarrow> fsys" where
  "unlink env p files = (if unlinkRejects env p then files else files - {p})"

text \<open>
  The last two statements:
  \<^verbatim>\<open>transcription && transcription.text ? transcription.text : ""\<close>, then \<^verbatim>\<open>text.trim()\<close>,
  which throws when the text is a truthy value that is not a string.
\<close>

definition transcriptText :: "jsval \<Rightarrow> jsexn + string" where
  "transcriptText transcription =
     (if \<not> truthy transcription then Inr (trim [])
      else (case getProp transcription ''text'' of
              Inl e \<Rightarrow> Inl e
            | Inr t \<Rightarrow> (if \<not> truthy t then Inr (trim [])
                       else (case t of JStr s \<Rightarrow> Inr (trim s) | _ \<Rightarrow> Inl TypeError))))"

text \<open>
  \<^verbatim>\<open>transcribeAudioFromUrl(fileUrl)\<close>: the file system after the call, and the thrown
  error or the returned text. The function has no \<^verbatim>\<open>try\<close>: a step that throws ends it.
\<close>

definition transcribeAudioFromUrl :: "audioEnv \<Rightarrow> fsys \<Rightarrow> string \<Rightarrow> fsys \<times> (jsexn + string)" where
  "transcribeAudioFromUrl env files fileUrl =
     (case fetch env fileUrl of
        Inl e \<Rightarrow> (files, Inl e)
      | Inr res \<Rightarrow>
         (if \<not> ok res then (files, Inl DownloadFailed)
          else (case arrayBuffer res of
            Inl e \<Rightarrow> (files, Inl e)
          | Inr inputBuffer \<Rightarrow>
             (case mkdir env of
                Some e \<Rightarrow> (files, Inl e)
              | None \<Rightarrow>
                 (let ts = now env;
                      oggPath = InputOga ts;
                      mp3Path = OutputMp3 ts
                  in (case writeFile env oggPath of
                       Some e \<Rightarrow> (files, Inl e)
                     | None \<Rightarrow>
                        (let files1 = insert oggPath files
                         in (case ffmpeg env oggPath mp3Path of
                              ConversionError left \<Rightarrow>
                                ((if left then insert mp3Path files1 else files1), Inl TranscodeFailed)
                            | Converted \<Rightarrow>
                               (let files2 = insert mp3Path files1
                                in (case transcriptionsCreate env mp3Path of
                                     Inl e \<Rightarrow> (files2, Inl e)
                                   | Inr transcription \<Rightarrow>
                                       (unlink env mp3Path (unlink env oggPath files2),
                                        transcriptText transcription)))))))))))"

section \<open>Sessions (sessions.js)\<close>

datatype substate = idle | waiting_for_answers | waiting_for_voice

datatype practice = Reading | Listening | Speaking | Free

record statsObj =
  totalScore :: rat

text \<open>The \<^verbatim>\<open>reading\<close> and \<^verbatim>\<open>listening\<close> objects; \<^verbatim>\<open>exercise\<close> is \<^const>\<open>JNull\<close> or a parsed value.\<close>

record modeState =
  state :: substate
  exercise :: jsval

text \<open>The \<^verbatim>\<open>speaking\<close> object; \<^verbatim>\<open>lastTranscript\<close> is \<^verbatim>\<open>null\<close> (\<^const>\<open>None\<close>) or a string.\<close>

record speakingState = modeState +
  lastTranscript :: "string option"

record session =
  level :: "string option"
  practiceType :: "practice option"
  stats :: statsObj
  reading :: modeState
  listening :: modeState
  speaking :: speakingState

definition createEmptySession :: session where
  "createEmptySession =
     \<lparr>level = None,
      practiceType = None,
      stats = \<lparr>totalScore = 0\<rparr>,
      reading = \<lparr>state = idle, exercise = JNull\<rparr>,
      listening = \<lparr>state = idle, exercise = JNull\<rparr>,
      speaking = \<lparr>state = idle, exercise = JNull, lastTranscript = None\<rparr>\<rparr>"

type_synonym sessions = "nat \<rightharpoonup> session"

definition getSession :: "sessions \<Rightarrow> nat \<Rightarrow> sessions \<times> session" where
  "getSession sessions userId =
     (case sessions userId of
        None \<Rightarrow> (sessions(userId \<mapsto> createEmptySession), createEmptySession)
      | Some s \<Rightarrow> (sessions, s))"

definition resetSession :: "sessions \<Rightarrow> nat \<Rightarrow> sessions" where
  "resetSession sessions userId = sessions(userId \<mapsto> createEmptySession)"

section \<open>The bot (index.js)\<close>

text \<open>
  \<^verbatim>\<open>addScoreToStats(session, score)\<close>. Every caller passes a value whose \<^verbatim>\<open>typeof\<close> is
  \<^verbatim>\<open>"number"\<close>, on which \<^verbatim>\<open>Number(score)\<close> is the identity. A session always has its
  \<^verbatim>\<open>stats\<close> object, so the first \<^verbatim>\<open>if\<close> never fires.
\<close>

definition addScoreToStats :: "session \<Rightarrow> jsnum \<Rightarrow> session" where
  "addScoreToStats session score =
     (case score of
        Finite val \<Rightarrow>
          (let current = (if totalScore (stats session) \<noteq> 0 then totalScore (stats session) else 0);
               updated = current + val
           in session\<lparr>stats := (stats session)\<lparr>totalScore := max 0 updated\<rparr>\<rparr>)
      | _ \<Rightarrow> session)"

text \<open>\<^verbatim>\<open>session.level || "1"\<close>\<close>

definition levelOrDefault :: "session \<Rightarrow> string" where
  "levelOrDefault session =
     (case level session of None \<Rightarrow> ''1'' | Some l \<Rightarrow> (if l = [] then ''1'' else l))"

subsection \<open>The capabilities of ai.js\<close>

text \<open>
  The outcomes of the external calls made while one update is handled. For each
  function of ai.js that asks the language model, the field gives what
  \<^verbatim>\<open>client.responses.create\<close> followed by \<^verbatim>\<open>JSON.parse\<close> comes to for the request: a thrown
  error or the parsed value. No handler calls the same capability twice.
\<close>

record env =
  readingExerciseResponse :: "string \<Rightarrow> jsexn + jsval"
  readingEvaluationResponse :: "string \<Rightarrow> jsval \<Rightarrow> jsval list \<Rightarrow> string \<Rightarrow> jsexn + jsval"
  speechCreate :: "jsval \<Rightarrow> jsexn + nat list"
  speakingExerciseResponse :: "string \<Rightarrow> jsexn + jsval"
  speakingEvaluationResponse :: "string \<Rightarrow> jsval \<Rightarrow> jsval \<Rightarrow> jsval \<Rightarrow> string \<Rightarrow> jsexn + jsval"
  freeChatResponse :: "string \<Rightarrow> string \<Rightarrow> jsexn + jsval"
  audio :: audioEnv
  files :: fsys

definition generateReadingExercise :: "env \<Rightarrow> string \<Rightarrow> jsexn + jsval" where
  "generateReadingExercise env lvl = readingExerciseResponse env lvl"

text \<open>\<^verbatim>\<open>questions.map(...)\<close> runs before the request and throws unless it is an array.\<close>

definition evaluateReadingAnswers :: "env \<Rightarrow> string \<Rightarrow> jsval \<Rightarrow> jsval \<Rightarrow> string \<Rightarrow> jsexn + jsval" where
  "evaluateReadingAnswers env lvl text questions userAnswers =
     (case questions of
        JArr qs \<Rightarrow> readingEvaluationResponse env lvl text qs userAnswers
      | _ \<Rightarrow> Inl TypeError)"

definition ttsFromKoreanText :: "env \<Rightarrow> jsval \<Rightarrow> jsexn + nat list" where
  "ttsFromKoreanText env text = speechCreate env text"

definition generateSpeakingExercise :: "env \<Rightarrow> string \<Rightarrow> jsexn + jsval" where
  "generateSpeakingExercise env lvl = speakingExerciseResponse env lvl"

definition evaluateSpeakingResponse :: "env \<Rightarrow> string \<Rightarrow> jsval \<Rightarrow> jsval \<Rightarrow> jsval \<Rightarrow> string \<Rightarrow> jsexn + jsval" where
  "evaluateSpeakingResponse env lvl topic promptKo promptRu transcript =
     speakingEvaluationResponse env lvl topic promptKo promptRu transcript"

text \<open>\<^verbatim>\<open>userMessage || ""\<close> is the message itself when it is a string.\<close>

definition generateFreeChatReply :: "env \<Rightarrow> string \<Rightarrow> string \<Rightarrow> jsexn + jsval" where
  "generateFreeChatReply env lvl userMessage = freeChatResponse env lvl userMessage"

subsection \<open>What a handler does besides changing the session\<close>

text \<open>The calls of ai.js functions, with their arguments.\<close>

datatype call =
    GenerateReadingExercise string
  | EvaluateReadingAnswers string jsval jsval string
  | TtsFromKoreanText jsval
  | GenerateSpeakingExercise string
  | EvaluateSpeakingResponse string jsval jsval jsval string
  | TranscribeAudioFromUrl string
  | GenerateFreeChatReply string string

text \<open>
  The messages sent to the user, by kind. The chat transport is outside this model: a
  send (\<^verbatim>\<open>ctx.reply\<close>, \<^verbatim>\<open>ctx.replyWithAudio\<close>, \<^verbatim>\<open>ctx.replyWithPhoto\<close>,
  \<^verbatim>\<open>ctx.answerCbQuery\<close>) and \<^verbatim>\<open>ctx.telegram.getFileLink\<close> are taken to succeed.
\<close>

datatype message =
    CallbackAnswered
  | Greeting
  | ChooseLevel
  | ChooseLevelFirst
  | LevelSaved string
  | ChoosePractice
  | NoPointsYet
  | Progress rat "block list" levelMeta
  | PreparingReading
  | PreparingSpeaking
  | PreparingListening
  | FreeModeIntro
  | GeneratingNext
  | ReadingText jsval
  | Questions "jsval list"
  | GenerationFailed
  | NoActiveTask
  | CheckingAnswers
  | Result jsval
  | EvaluationFailed
  | ListeningAudio "nat list"
  | FreeChatReply jsval
  | FreeChatFailed
  | SpeakingTask jsval
  | VoiceReceived
  | SpeakingResult string jsval
  | VoiceFailed
  | SendVoiceReminder

datatype effect =
    Requested call
  | Sent message
  | ErrorLogged
  | PassedOn
  | Uncaught jsexn

definition emit :: "effect list \<Rightarrow> session \<times> effect list \<Rightarrow> session \<times> effect list" where
  "emit out r = (fst r, out @ snd r)"

subsection \<open>Reading and listening\<close>

text \<open>
  \<^verbatim>\<open>exercise.questions.map(...).join("\n")\<close>: throws unless \<^verbatim>\<open>questions\<close> is an array.
\<close>

definition questionsOf :: "jsval \<Rightarrow> jsexn + jsval list" where
  "questionsOf ex =
     (case getProp ex ''questions'' of
        Inl e \<Rightarrow> Inl e
      | Inr (JArr qs) \<Rightarrow> Inr qs
      | Inr _ \<Rightarrow> Inl TypeError)"

text \<open>
  \<^verbatim>\<open>startReadingExercise(ctx, session)\<close>. The two assignments to \<^verbatim>\<open>session.reading\<close> come
  right after the generation call, before the exercise is read; whatever throws inside
  the \<^verbatim>\<open>try\<close> ends in the \<^verbatim>\<open>catch\<close>, which logs and sends the failure message.
\<close>

definition startReadingExercise :: "env \<Rightarrow> session \<Rightarrow> session \<times> effect list" where
  "startReadingExercise env session =
     (let lvl = levelOrDefault session in
      (case generateReadingExercise env lvl of
         Inl err \<Rightarrow>
           (session, [Requested (GenerateReadingExercise lvl), ErrorLogged, Sent GenerationFailed])
       | Inr ex \<Rightarrow>
          (let session1 = session\<lparr>reading :=
                 (reading session)\<lparr>state := waiting_for_answers, exercise := ex\<rparr>\<rparr>
           in (case getProp ex ''text'' of
                 Inl err \<Rightarrow>
                   (session1,
                    [Requested (GenerateReadingExercise lvl), ErrorLogged, Sent GenerationFailed])
               | Inr text \<Rightarrow>
                  (case questionsOf ex of
                     Inl err \<Rightarrow>
                       (session1,
                        [Requested (GenerateReadingExercise lvl), Sent (ReadingText text),
                         ErrorLogged, Sent GenerationFailed])
                   | Inr qs \<Rightarrow>
                       (session1,
                        [Requested (GenerateReadingExercise lvl), Sent (ReadingText text),
                         Sent (Questions qs)]))))))"

text \<open>
  The loop over \<^verbatim>\<open>result.per_question\<close> reads \<^verbatim>\<open>q.correct\<close> of every element when the
  value is an array: it throws on an element that is \<^verbatim>\<open>null\<close>.
\<close>

definition perQuestionThrows :: "jsval \<Rightarrow> bool" where
  "perQuestionThrows perQuestion =
     (case perQuestion of
        JArr qs \<Rightarrow> list_ex (\<lambda>q. isl (getProp q ''correct'')) qs
      | _ \<Rightarrow> False)"

text \<open>
  The body shared by \<^verbatim>\<open>handleReadingAnswers\<close> and \<^verbatim>\<open>handleListeningAnswers\<close> from the
  destructuring of the stored exercise on; \<open>setIdle\<close> is the assignment
  \<^verbatim>\<open>session.reading.state = "idle"\<close> (or the one to \<^verbatim>\<open>session.listening\<close>). The
  destructuring stands before the \<^verbatim>\<open>try\<close>.
\<close>

definition checkAnswers ::
  "env \<Rightarrow> (session \<Rightarrow> session) \<Rightarrow> session \<Rightarrow> string \<Rightarrow> jsval \<Rightarrow> string \<Rightarrow> session \<times> effect list" where
  "checkAnswers env setIdle session lvl ex userAnswersText =
     (case getProp ex ''text'' of
        Inl err \<Rightarrow> (session, [Uncaught err])
      | Inr text \<Rightarrow>
         (case getProp ex ''questions'' of
            Inl err \<Rightarrow> (session, [Uncaught err])
          | Inr questions \<Rightarrow>
             (let asked = [Sent CheckingAnswers,
                           Requested (EvaluateReadingAnswers lvl text questions userAnswersText)]
              in (case evaluateReadingAnswers env lvl text questions userAnswersText of
                    Inl err \<Rightarrow> (session, asked @ [ErrorLogged, Sent EvaluationFailed])
                  | Inr result \<Rightarrow>
                     (case getProp result ''score'' of
                        Inl err \<Rightarrow> (session, asked @ [ErrorLogged, Sent EvaluationFailed])
                      | Inr score \<Rightarrow>
                         (let session1 = (case score of
                                            JNum n \<Rightarrow> addScoreToStats session n
                                          | _ \<Rightarrow> session);
                              session2 = setIdle session1
                          in (case getProp result ''per_question'' of
                                Inl err \<Rightarrow> (session2, asked @ [ErrorLogged, Sent EvaluationFailed])
                              | Inr perQuestion \<Rightarrow>
                                  if perQuestionThrows perQuestion
                                  then (session2, asked @ [ErrorLogged, Sent EvaluationFailed])
                                  else (session2, asked @ [Sent (Result score)]))))))))"

definition handleReadingAnswers :: "env \<Rightarrow> session \<Rightarrow> string \<Rightarrow> session \<times> effect list" where
  "handleReadingAnswers env session userAnswersText =
     (let lvl = levelOrDefault session in
      if \<not> truthy (exercise (reading session)) then (session, [Sent NoActiveTask])
      else checkAnswers env (\<lambda>s. s\<lparr>reading := (reading s)\<lparr>state := idle\<rparr>\<rparr>)
             session lvl (exercise (reading session)) userAnswersText)"

text \<open>
  \<^verbatim>\<open>startListeningExercise(ctx, session)\<close>: as for reading, with the speech synthesis
  of \<^verbatim>\<open>exercise.text\<close> after the two assignments to \<^verbatim>\<open>session.listening\<close>.
\<close>

definition startListeningExercise :: "env \<Rightarrow> session \<Rightarrow> session \<times> effect list" where
  "startListeningExercise env session =
     (let lvl = levelOrDefault session in
      (case generateReadingExercise env lvl of
         Inl err \<Rightarrow>
           (session, [Requested (GenerateReadingExercise lvl), ErrorLogged, Sent GenerationFailed])
       | Inr ex \<Rightarrow>
          (let session1 = session\<lparr>listening :=
                 (listening session)\<lparr>state := waiting_for_answers, exercise := ex\<rparr>\<rparr>
           in (case getProp ex ''text'' of
                 Inl err \<Rightarrow>
                   (session1,
                    [Requested (GenerateReadingExercise lvl), ErrorLogged, Sent GenerationFailed])
               | Inr text \<Rightarrow>
                  (case ttsFromKoreanText env text of
                     Inl err \<Rightarrow>
                       (session1,
                        [Requested (GenerateReadingExercise lvl), Requested (TtsFromKoreanText text),
                         ErrorLogged, Sent GenerationFailed])
                   | Inr audioBuffer \<Rightarrow>
                      (case questionsOf ex of
                         Inl err \<Rightarrow>
                           (session1,
                            [Requested (GenerateReadingExercise lvl),
                             Requested (TtsFromKoreanText text), Sent (ListeningAudio audioBuffer),
                             ErrorLogged, Sent GenerationFailed])
                       | Inr qs \<Rightarrow>
                           (session1,
                            [Requested (GenerateReadingExercise lvl),
                             Requested (TtsFromKoreanText text), Sent (ListeningAudio audioBuffer),
                             Sent (Questions qs)])))))))"

definition handleListeningAnswers :: "env \<Rightarrow> session \<Rightarrow> string \<Rightarrow> session \<times> effect list" where
  "handleListeningAnswers env session userAnswersText =
     (let lvl = levelOrDefault session in
      if \<not> truthy (exercise (listening session)) then (session, [Sent NoActiveTask])
      else checkAnswers env (\<lambda>s. s\<lparr>listening := (listening s)\<lparr>state := idle\<rparr>\<rparr>)
             session lvl (exercise (listening session)) userAnswersText)"

subsection \<open>Free chat\<close>

text \<open>
  Building the message from the reply: \<^verbatim>\<open>reply.korean\<close> throws when the reply is
  \<^verbatim>\<open>null\<close>; the first three corrections are read when \<^verbatim>\<open>reply.corrections\<close> is an array,
  which throws on one that is \<^verbatim>\<open>null\<close>.
\<close>

definition freeChatMessage :: "jsval \<Rightarrow> jsexn + message" where
  "freeChatMessage reply =
     (case getProp reply ''korean'' of
        Inl e \<Rightarrow> Inl e
      | Inr korean \<Rightarrow>
         (case getProp reply ''corrections'' of
            Inr (JArr cs) \<Rightarrow>
              if list_ex (\<lambda>c. isl (getProp c ''original'')) (take 3 cs) then Inl TypeError
              else Inr (FreeChatReply korean)
          | _ \<Rightarrow> Inr (FreeChatReply korean)))"

definition handleFreeChatMessage :: "env \<Rightarrow> session \<Rightarrow> string \<Rightarrow> session \<times> effect list" where
  "handleFreeChatMessage env session userText =
     (let lvl = levelOrDefault session in
      (case generateFreeChatReply env lvl userText of
         Inl err \<Rightarrow>
           (session, [Requested (GenerateFreeChatReply lvl userText), ErrorLogged, Sent FreeChatFailed])
       | Inr reply \<Rightarrow>
          (case freeChatMessage reply of
             Inl err \<Rightarrow>
               (session,
                [Requested (GenerateFreeChatReply lvl userText), ErrorLogged, Sent FreeChatFailed])
           | Inr msg \<Rightarrow> (session, [Requested (GenerateFreeChatReply lvl userText), Sent msg]))))"

text \<open>\<^verbatim>\<open>startFreeChat\<close> has the body of \<^verbatim>\<open>handleFreeChatMessage\<close> with the empty message.\<close>

definition startFreeChat :: "env \<Rightarrow> session \<Rightarrow> session \<times> effect list" where
  "startFreeChat env session = handleFreeChatMessage env session []"

subsection \<open>Speaking\<close>

definition startSpeakingExercise :: "env \<Rightarrow> session \<Rightarrow> session \<times> effect list" where
  "startSpeakingExercise env session =
     (let lvl = levelOrDefault session in
      (case generateSpeakingExercise env lvl of
         Inl err \<Rightarrow>
           (session, [Requested (GenerateSpeakingExercise lvl), ErrorLogged, Sent GenerationFailed])
       | Inr ex \<Rightarrow>
          (let session1 = session\<lparr>speaking :=
                 (speaking session)\<lparr>state := waiting_for_voice, exercise := ex,
                                    lastTranscript := None\<rparr>\<rparr>
           in (case getProp ex ''topic'' of
                 Inl err \<Rightarrow>
                   (session1,
                    [Requested (GenerateSpeakingExercise lvl), ErrorLogged, Sent GenerationFailed])
               | Inr topic \<Rightarrow>
                   (session1, [Requested (GenerateSpeakingExercise lvl), Sent (SpeakingTask topic)])))))"

text \<open>
  The voice handler's speaking branch from \<^verbatim>\<open>session.speaking.lastTranscript = transcript\<close>
  on, inside the \<^verbatim>\<open>try\<close>; \<open>sofar\<close> is what the handler has done until then.
\<close>

definition evaluateVoice :: "env \<Rightarrow> session \<Rightarrow> string \<Rightarrow> effect list \<Rightarrow> session \<times> effect list" where
  "evaluateVoice env session transcript sofar =
     (let session1 = session\<lparr>speaking := (speaking session)\<lparr>lastTranscript := Some transcript\<rparr>\<rparr>;
          lvl = levelOrDefault session1;
          ex = exercise (speaking session1)
      in (case getProp ex ''topic'' of
            Inl err \<Rightarrow> (session1, sofar @ [ErrorLogged, Sent VoiceFailed])
          | Inr topic \<Rightarrow>
             (case getProp ex ''prompt_ko'' of
                Inl err \<Rightarrow> (session1, sofar @ [ErrorLogged, Sent VoiceFailed])
              | Inr promptKo \<Rightarrow>
                 (case getProp ex ''prompt_ru'' of
                    Inl err \<Rightarrow> (session1, sofar @ [ErrorLogged, Sent VoiceFailed])
                  | Inr promptRu \<Rightarrow>
                     (let asked = sofar @
                            [Requested (EvaluateSpeakingResponse lvl topic promptKo promptRu transcript)]
                      in (case evaluateSpeakingResponse env lvl topic promptKo promptRu transcript of
                            Inl err \<Rightarrow> (session1, asked @ [ErrorLogged, Sent VoiceFailed])
                          | Inr result \<Rightarrow>
                             (case getProp result ''score'' of
                                Inl err \<Rightarrow> (session1, asked @ [ErrorLogged, Sent VoiceFailed])
                              | Inr score \<Rightarrow>
                                 (let session2 = (case score of
                                                    JNum n \<Rightarrow> addScoreToStats session1 n
                                                  | _ \<Rightarrow> session1);
                                      session3 = session2\<lparr>speaking :=
                                                   (speaking session2)\<lparr>state := idle\<rparr>\<rparr>
                                  in (session3,
                                      asked @ [Sent (SpeakingResult transcript score)])))))))))"

text \<open>
  \<^verbatim>\<open>bot.on("voice")\<close>, given the link of the voice file. The handlers do not read the
  scratch files, so the file system after the transcription is dropped here.
\<close>

definition voiceHandler :: "env \<Rightarrow> string \<Rightarrow> session \<Rightarrow> session \<times> effect list" where
  "voiceHandler env fileUrl session =
     (if practiceType session = Some Free then
        (case snd (transcribeAudioFromUrl (audio env) (files env) fileUrl) of
           Inl err \<Rightarrow>
             (session,
              [Sent VoiceReceived, Requested (TranscribeAudioFromUrl fileUrl), ErrorLogged,
               Sent VoiceFailed])
         | Inr transcript \<Rightarrow>
             emit [Sent VoiceReceived, Requested (TranscribeAudioFromUrl fileUrl)]
               (handleFreeChatMessage env session transcript))
      else if practiceType session \<noteq> Some Speaking \<or> state (speaking session) \<noteq> waiting_for_voice
      then (session, [PassedOn])
      else
        (case snd (transcribeAudioFromUrl (audio env) (files env) fileUrl) of
           Inl err \<Rightarrow>
             (session,
              [Sent VoiceReceived, Requested (TranscribeAudioFromUrl fileUrl), ErrorLogged,
               Sent VoiceFailed])
         | Inr transcript \<Rightarrow>
             evaluateVoice env session transcript
               [Sent VoiceReceived, Requested (TranscribeAudioFromUrl fileUrl)]))"

subsection \<open>Menus, mode selection and routing\<close>

definition CHANGE_LEVEL_TEXT :: string where
  "CHANGE_LEVEL_TEXT = ''Change difficulty''"

definition CHANGE_MODE_TEXT :: string where
  "CHANGE_MODE_TEXT = ''Change mode''"

definition SHOW_PROGRESS_TEXT :: string where
  "SHOW_PROGRESS_TEXT = ''See progress''"

definition levels :: "string list" where
  "levels = [''1'', ''2'', ''3'', ''4'', ''5'', ''6'']"

text \<open>
  \<^verbatim>\<open>handlePracticeChoice(ctx, type)\<close>, on the session that \<^verbatim>\<open>getSession\<close> returned. The
  free branch returns before the log line, which changes nothing here.
\<close>

definition handlePracticeChoice :: "env \<Rightarrow> practice \<Rightarrow> session \<Rightarrow> session \<times> effect list" where
  "handlePracticeChoice env type session =
     (let session1 = session\<lparr>practiceType := Some type\<rparr> in
      (case type of
         Reading \<Rightarrow>
           emit [Sent CallbackAnswered, Sent PreparingReading] (startReadingExercise env session1)
       | Speaking \<Rightarrow>
           emit [Sent CallbackAnswered, Sent PreparingSpeaking] (startSpeakingExercise env session1)
       | Listening \<Rightarrow>
           emit [Sent CallbackAnswered, Sent PreparingListening] (startListeningExercise env session1)
       | Free \<Rightarrow>
           emit [Sent CallbackAnswered, Sent CallbackAnswered, Sent FreeModeIntro]
             (startFreeChat env session1)))"

text \<open>
  The buttons under a result: the start function runs first, as an argument of
  \<^verbatim>\<open>ctx.reply\<close>.
\<close>

definition nextExercise ::
  "practice \<Rightarrow> (session \<Rightarrow> session \<times> effect list) \<Rightarrow> session \<Rightarrow> session \<times> effect list" where
  "nextExercise type start session =
     (let r = start (session\<lparr>practiceType := Some type\<rparr>)
      in (fst r, [Sent CallbackAnswered] @ snd r @ [Sent GeneratingNext]))"

text \<open>The handler of \<^verbatim>\<open>SHOW_PROGRESS_TEXT\<close>.\<close>

definition showProgress :: "session \<Rightarrow> session \<times> effect list" where
  "showProgress session =
     (let total = (if totalScore (stats session) \<noteq> 0 then totalScore (stats session) else 0) in
      if total \<le> 0 then (session, [Sent NoPointsYet])
      else (let displayScore = max 0 (min 500 total) in
            (case buildProgressBar displayScore of
               Inl err \<Rightarrow> (session, [ErrorLogged])
             | Inr bar \<Rightarrow>
                 (session, [Sent (Progress displayScore bar (getRamyunLevelMeta displayScore))]))))"

text \<open>\<^verbatim>\<open>bot.on("text")\<close>\<close>

definition textHandler :: "env \<Rightarrow> string \<Rightarrow> session \<Rightarrow> session \<times> effect list" where
  "textHandler env text session =
     (if text = CHANGE_LEVEL_TEXT \<or> text = CHANGE_MODE_TEXT \<or> text = SHOW_PROGRESS_TEXT
      then (session, [PassedOn])
      else if practiceType session = Some Free then handleFreeChatMessage env session text
      else if practiceType session = Some Reading \<and> state (reading session) = waiting_for_answers
      then handleReadingAnswers env session text
      else if practiceType session = Some Listening \<and> state (listening session) = waiting_for_answers
      then handleListeningAnswers env session text
      else if practiceType session = Some Speaking \<and> state (speaking session) = waiting_for_voice
      then (session, [Sent SendVoiceReminder])
      else (session, [PassedOn]))"

text \<open>
  The updates the bot has handlers for: the \<^verbatim>\<open>/start\<close> command, the inline buttons, a
  text message that is not that command, and a voice message with the link of its file.
\<close>

datatype action =
    LEVEL string
  | PRACTICE_SPEAKING
  | PRACTICE_LISTENING
  | PRACTICE_READING
  | PRACTICE_FREE
  | READING_NEXT
  | LISTENING_NEXT
  | SPEAKING_NEXT
  | CHANGE_MODE_INLINE

datatype update =
    StartCommand
  | Action action
  | TextMessage string
  | VoiceMessage string

text \<open>
  One update on the user's session. The handlers are tried in the order of their
  registration: the three \<^verbatim>\<open>hears\<close> handlers stand before \<^verbatim>\<open>bot.on("text")\<close>. After
  \<^verbatim>\<open>/start\<close> the session is the fresh one that \<^verbatim>\<open>resetSession\<close> stored.
\<close>

definition handleUpdate :: "env \<Rightarrow> update \<Rightarrow> session \<Rightarrow> session \<times> effect list" where
  "handleUpdate env u session =
     (case u of
        StartCommand \<Rightarrow> (createEmptySession, [Sent Greeting, Sent ChooseLevel])
      | Action (LEVEL lvl) \<Rightarrow>
          if lvl \<in> set levels
          then (session\<lparr>level := Some lvl\<rparr>,
                [Sent CallbackAnswered, Sent (LevelSaved lvl), Sent ChoosePractice])
          else (session, [PassedOn])
      | Action PRACTICE_SPEAKING \<Rightarrow> handlePracticeChoice env Speaking session
      | Action PRACTICE_LISTENING \<Rightarrow> handlePracticeChoice env Listening session
      | Action PRACTICE_READING \<Rightarrow> handlePracticeChoice env Reading session
      | Action PRACTICE_FREE \<Rightarrow> handlePracticeChoice env Free session
      | Action READING_NEXT \<Rightarrow> nextExercise Reading (startReadingExercise env) session
      | Action LISTENING_NEXT \<Rightarrow> nextExercise Listening (startListeningExercise env) session
      | Action SPEAKING_NEXT \<Rightarrow> nextExercise Speaking (startSpeakingExercise env) session
      | Action CHANGE_MODE_INLINE \<Rightarrow>
          (session\<lparr>practiceType := None\<rparr>, [Sent CallbackAnswered, Sent ChoosePractice])
      | TextMessage text \<Rightarrow>
          if text = CHANGE_LEVEL_TEXT then (session\<lparr>level := None\<rparr>, [Sent ChooseLevel])
          else if text = CHANGE_MODE_TEXT then
            (if (case level session of None \<Rightarrow> True | Some l \<Rightarrow> l = [])
             then (session, [Sent ChooseLevelFirst])
             else (session, [Sent ChoosePractice]))
          else if text = SHOW_PROGRESS_TEXT then showProgress session
          else textHandler env text session
      | VoiceMessage fileUrl \<Rightarrow> voiceHandler env fileUrl session)"

text \<open>The same on the store: \<^verbatim>\<open>resetSession\<close> for \<^verbatim>\<open>/start\<close>, \<^verbatim>\<open>getSession\<close> otherwise.\<close>

definition handleFor :: "env \<Rightarrow> nat \<Rightarrow> update \<Rightarrow> sessions \<Rightarrow> sessions \<times> effect list" where
  "handleFor env userId u sessions =
     (case u of
        StartCommand \<Rightarrow> (resetSession sessions userId, snd (handleUpdate env u createEmptySession))
      | _ \<Rightarrow>
         (let got = getSession sessions userId;
              r = handleUpdate env u (snd got)
          in ((fst got)(userId \<mapsto> fst r), snd r)))"

text \<open>
  The sessions that a fresh one can become, update by update, when the outcomes of the
  external calls of every update satisfy \<open>P\<close>.
\<close>

inductive reachable :: "(env \<Rightarrow> bool) \<Rightarrow> session \<Rightarrow> bool" for P where
  fresh: "reachable P createEmptySession"
| step: "reachable P s \<Longrightarrow> P env \<Longrightarrow> reachable P (fst (handleUpdate env u s))"

text \<open>The stores that the empty one can become, update by update, of any users.\<close>

inductive reachableStore :: "(env \<Rightarrow> bool) \<Rightarrow> sessions \<Rightarrow> bool" for P where
  empty: "reachableStore P Map.empty"
| handled: "reachableStore P st \<Longrightarrow> P env \<Longrightarrow> reachableStore P (fst (handleFor env userId u st))"

section \<open>Sample outcomes and sessions\<close>

text \<open>
  Concrete outcomes of the external calls and a concrete session, for the theorems that
  evaluate the handlers: every capability answers, the exercise has a text and five
  questions, the speaking task has its three fields, the transcript is \<open>annyeong\<close>
  surrounded by blanks.
\<close>

definition sampleExercise :: jsval where
  "sampleExercise =
     JObj [(''text'', JStr ''annyeong''),
           (''questions'', JArr [JStr ''q1'', JStr ''q2'', JStr ''q3'', JStr ''q4'', JStr ''q5''])]"

definition sampleTask :: jsval where
  "sampleTask = JObj [(''topic'', JStr ''food''), (''prompt_ko'', JStr ''ko''), (''prompt_ru'', JStr ''en'')]"

definition audioOk :: audioEnv where
  "audioOk =
     \<lparr>fetch = (\<lambda>url. Inr \<lparr>ok = True, arrayBuffer = Inr [79, 103, 103, 83]\<rparr>),
      mkdir = None,
      now = 1700000000000,
      writeFile = (\<lambda>p. None),
      ffmpeg = (\<lambda>i out. Converted),
      transcriptionsCreate = (\<lambda>p. Inr (JObj [(''text'', JStr '' annyeong '')])),
      unlinkRejects = (\<lambda>p. False)\<rparr>"

definition envOk :: env where
  "envOk =
     \<lparr>readingExerciseResponse = (\<lambda>lvl. Inr sampleExercise),
      readingEvaluationResponse = (\<lambda>lvl text qs answers. Inr (JObj [(''score'', JNum (Finite 7))])),
      speechCreate = (\<lambda>text. Inr [73, 68, 51]),
      speakingExerciseResponse = (\<lambda>lvl. Inr sampleTask),
      speakingEvaluationResponse =
        (\<lambda>lvl topic ko ru transcript. Inr (JObj [(''score'', JNum (Finite 8))])),
      freeChatResponse = (\<lambda>lvl msg. Inr (JObj [(''korean'', JStr ''ne'')])),
      audio = audioOk,
      files = {}\<rparr>"


text \<open>
  The session after the reading, the listening and the speaking mode have been selected in
  turn with these outcomes, the level never having been chosen.
\<close>

definition sampleSession :: session where
  "sampleSession =
     \<lparr>level = None,
      practiceType = Some Speaking,
      stats = \<lparr>totalScore = 0\<rparr>,
      reading = \<lparr>state = waiting_for_answers, exercise = sampleExercise\<rparr>,
      listening = \<lparr>state = waiting_for_answers, exercise = sampleExercise\<rparr>,
      speaking = \<lparr>state = waiting_for_voice, exercise = sampleTask, lastTranscript = None\<rparr>\<rparr>"

section \<open>Properties of sessions and outcomes\<close>

text \<open>A sub-state that waits for the user's answers or voice message.\<close>

definition waiting :: "substate \<Rightarrow> bool" where
  "waiting st = (st = waiting_for_answers \<or> st = waiting_for_voice)"

text \<open>
  Every mode whose sub-state waits has an exercise that the guard \<^verbatim>\<open>!exercise\<close> of the
  answer handlers takes as present.
\<close>

definition exercisePresent :: "session \<Rightarrow> bool" where
  "exercisePresent s =
     ((waiting (state (reading s)) \<longrightarrow> truthy (exercise (reading s)))
    \<and> (waiting (state (listening s)) \<longrightarrow> truthy (exercise (listening s)))
    \<and> (waiting (state (speaking s)) \<longrightarrow> truthy (exercise (speaking s))))"

text \<open>Whatever the two generation capabilities return is truthy, as an object is.\<close>

definition truthyExercises :: "env \<Rightarrow> bool" where
  "truthyExercises env =
     ((\<forall>lvl ex. readingExerciseResponse env lvl = Inr ex \<longrightarrow> truthy ex)
    \<and> (\<forall>lvl ex. speakingExerciseResponse env lvl = Inr ex \<longrightarrow> truthy ex))"

section \<open>Score arithmetic\<close>

lemma math_round_round: "math_round x = round x"
  by (simp add: math_round_def round_def)

lemma filled_bounds:
  fixes t :: rat
  assumes "0 \<le> t" "t \<le> 500"
  shows "0 \<le> round (t / 500 * 10)" "round (t / 500 * 10) \<le> 10"
proof -
  have "(0::rat) \<le> t / 500 * 10" using assms by simp
  then have "round (0::rat) \<le> round (t / 500 * 10)" by (rule round_mono)
  then show "0 \<le> round (t / 500 * 10)" by simp
  have "t / 500 * 10 \<le> (10::rat)" using assms by simp
  then have "round (t / 500 * 10) \<le> round (10::rat)" by (rule round_mono)
  then show "round (t / 500 * 10) \<le> 10" by simp
qed

lemma progress_values:
  "buildProgressBar 250 = Inr (replicate 5 Filled @ replicate 5 Empty)"
  "buildProgressBar 0 = Inr (replicate 0 Filled @ replicate 10 Empty)"
  "buildProgressBar 500 = Inr (replicate 10 Filled @ replicate 0 Empty)"
  by code_simp+

text \<open>
  Claim C8. On the clamped range from 0 to 500, \<^verbatim>\<open>getRamyunLevelMeta\<close> returns the
  tier of 0 exactly below 100, the tier of 100 exactly from 100 to below 200, the tier
  of 200 exactly from 200 to below 300, the tier of 300 exactly from 300 to below 400 and
  the tier of 400 exactly from 400 on, 500 included; the five tiers are pairwise
  different and carry the five names; the tiers of 99 and 100 differ.
\<close>

theorem tier_bands:
  "(\<forall>t\<in>{0..500}.
      (getRamyunLevelMeta t = getRamyunLevelMeta 0 \<longleftrightarrow> t < 100)
    \<and> (getRamyunLevelMeta t = getRamyunLevelMeta 100 \<longleftrightarrow> 100 \<le> t \<and> t < 200)
    \<and> (getRamyunLevelMeta t = getRamyunLevelMeta 200 \<longleftrightarrow> 200 \<le> t \<and> t < 300)
    \<and> (getRamyunLevelMeta t = getRamyunLevelMeta 300 \<longleftrightarrow> 300 \<le> t \<and> t < 400)
    \<and> (getRamyunLevelMeta t = getRamyunLevelMeta 400 \<longleftrightarrow> 400 \<le> t))
   \<and> distinct (map getRamyunLevelMeta [0, 100, 200, 300, 400])
   \<and> map (name \<circ> getRamyunLevelMeta) [0, 100, 200, 300, 400] =
       [''Ramyun Mild'', ''Ramyun Original'', ''Ramyun Spicy'', ''Ramyun Very Spicy'',
        ''Ramyun Nuclear'']
   \<and> getRamyunLevelMeta 99 \<noteq> getRamyunLevelMeta 100"
  by (simp add: getRamyunLevelMeta_def Let_def)

theorem tier_bands_witness:
  "(99::rat) \<in> {0..500} \<and> getRamyunLevelMeta 99 = getRamyunLevelMeta 0
   \<and> (500::rat) \<in> {0..500} \<and> getRamyunLevelMeta 500 = getRamyunLevelMeta 400"
proof -
  have a: "(99::rat) \<in> {0..500}" and b: "(500::rat) \<in> {0..500}" by simp_all
  from tier_bands a
  have "getRamyunLevelMeta 99 = getRamyunLevelMeta 0 \<longleftrightarrow> (99::rat) < 100" by blast
  moreover from tier_bands b
  have "getRamyunLevelMeta 500 = getRamyunLevelMeta 400 \<longleftrightarrow> (400::rat) \<le> 500" by blast
  ultimately show ?thesis using a b by simp
qed

text \<open>
  Claim C9. For a total \<open>t\<close> from 0 to 500, \<^verbatim>\<open>buildProgressBar\<close> does not throw and
  returns \<open>round (t / 500 * 10)\<close> filled blocks followed by 10 minus that many empty
  blocks, the count of filled blocks lying between 0 and 10; at 250 that is 5 and 5, at 0
  it is 0 and 10, at 500 it is 10 and 0. The arithmetic is exact, and \<open>round\<close> takes a
  half upwards as \<^verbatim>\<open>Math.round\<close> does.
\<close>

theorem progressBar_counts:
  "(\<forall>t\<in>{0..500}. buildProgressBar t =
       Inr (replicate (nat (round (t / 500 * 10))) Filled @
            replicate (nat (10 - round (t / 500 * 10))) Empty)
     \<and> 0 \<le> round (t / 500 * 10) \<and> round (t / 500 * 10) \<le> 10)
   \<and> buildProgressBar 250 = Inr (replicate 5 Filled @ replicate 5 Empty)
   \<and> buildProgressBar 0 = Inr (replicate 0 Filled @ replicate 10 Empty)
   \<and> buildProgressBar 500 = Inr (replicate 10 Filled @ replicate 0 Empty)"
proof -
  have "buildProgressBar t =
       Inr (replicate (nat (round (t / 500 * 10))) Filled @
            replicate (nat (10 - round (t / 500 * 10))) Empty)
     \<and> 0 \<le> round (t / 500 * 10) \<and> round (t / 500 * 10) \<le> 10" if "t \<in> {0..500}" for t
    using that filled_bounds[of t]
    by (simp add: buildProgressBar_def Let_def repeat_def math_round_round)
  then show ?thesis using progress_values by blast
qed

theorem progressBar_counts_witness:
  "(125::rat) \<in> {0..500} \<and> buildProgressBar 125 = Inr (replicate 3 Filled @ replicate 7 Empty)"
proof -
  have m: "(125::rat) \<in> {0..500}" by simp
  have r: "round (125 / 500 * 10 :: rat) = 3" by code_simp
  from progressBar_counts m have "buildProgressBar 125 =
       Inr (replicate (nat (round (125 / 500 * 10 :: rat))) Filled @
            replicate (nat (10 - round (125 / 500 * 10 :: rat))) Empty)" by blast
  with m r show ?thesis by simp
qed

section \<open>Sessions and handlers\<close>

lemma addScoreToStats_frame [simp]:
  "level (addScoreToStats s n) = level s"
  "practiceType (addScoreToStats s n) = practiceType s"
  "reading (addScoreToStats s n) = reading s"
  "listening (addScoreToStats s n) = listening s"
  "speaking (addScoreToStats s n) = speaking s"
  by (cases n; simp add: addScoreToStats_def Let_def)+

lemma levelOrDefault_frame [simp]:
  "levelOrDefault (s\<lparr>practiceType := p\<rparr>) = levelOrDefault s"
  "levelOrDefault (s\<lparr>speaking := sp\<rparr>) = levelOrDefault s"
  "levelOrDefault (s\<lparr>reading := r\<rparr>) = levelOrDefault s"
  "levelOrDefault (s\<lparr>listening := r\<rparr>) = levelOrDefault s"
  by (simp_all add: levelOrDefault_def)

lemma startReadingExercise_session:
  "fst (startReadingExercise env s) =
     (case generateReadingExercise env (levelOrDefault s) of
        Inl e \<Rightarrow> s
      | Inr ex \<Rightarrow> s\<lparr>reading := (reading s)\<lparr>state := waiting_for_answers, exercise := ex\<rparr>\<rparr>)"
  by (simp add: startReadingExercise_def Let_def split: sum.splits)

lemma startListeningExercise_session:
  "fst (startListeningExercise env s) =
     (case generateReadingExercise env (levelOrDefault s) of
        Inl e \<Rightarrow> s
      | Inr ex \<Rightarrow> s\<lparr>listening := (listening s)\<lparr>state := waiting_for_answers, exercise := ex\<rparr>\<rparr>)"
  by (simp add: startListeningExercise_def Let_def split: sum.splits)

lemma startSpeakingExercise_session:
  "fst (startSpeakingExercise env s) =
     (case generateSpeakingExercise env (levelOrDefault s) of
        Inl e \<Rightarrow> s
      | Inr ex \<Rightarrow> s\<lparr>speaking := (speaking s)\<lparr>state := waiting_for_voice, exercise := ex,
                                           lastTranscript := None\<rparr>\<rparr>)"
  by (simp add: startSpeakingExercise_def Let_def split: sum.splits)

lemma handleFreeChatMessage_session [simp]: "fst (handleFreeChatMessage env s text) = s"
  by (simp add: handleFreeChatMessage_def Let_def split: sum.splits)

lemma startFreeChat_session [simp]: "fst (startFreeChat env s) = s"
  by (simp add: startFreeChat_def)

lemma fst_emit [simp]: "fst (emit out r) = fst r"
  by (simp add: emit_def)

lemma snd_emit [simp]: "snd (emit out r) = out @ snd r"
  by (simp add: emit_def)

lemma checkAnswers_session:
  "fst (checkAnswers env setIdle s lvl ex a) = s
   \<or> fst (checkAnswers env setIdle s lvl ex a) = setIdle s
   \<or> (\<exists>n. fst (checkAnswers env setIdle s lvl ex a) = setIdle (addScoreToStats s n))"
  by (auto simp add: checkAnswers_def Let_def split: sum.splits jsval.splits)

text \<open>
  Claim C6. When the stored reading exercise is \<^verbatim>\<open>null\<close>, \<^verbatim>\<open>handleReadingAnswers\<close> only
  sends the message that there is no active task: no evaluation is requested and the
  session, its reading state included, is returned as it was. The same holds for
  \<^verbatim>\<open>handleListeningAnswers\<close> and the listening exercise.
\<close>

theorem submit_without_exercise:
  "(exercise (reading s) = JNull \<longrightarrow>
      handleReadingAnswers env s answers = (s, [Sent NoActiveTask]))
   \<and> (exercise (listening s) = JNull \<longrightarrow>
      handleListeningAnswers env s answers = (s, [Sent NoActiveTask]))"
  by (simp add: handleReadingAnswers_def handleListeningAnswers_def)

theorem submit_without_exercise_witness:
  "exercise (reading createEmptySession) = JNull
   \<and> handleReadingAnswers envOk createEmptySession ''1 a 2 b'' = (createEmptySession, [Sent NoActiveTask])
   \<and> exercise (listening createEmptySession) = JNull
   \<and> handleListeningAnswers envOk createEmptySession ''1 a 2 b'' = (createEmptySession, [Sent NoActiveTask])"
  using submit_without_exercise [of createEmptySession envOk "''1 a 2 b''"]
  by (simp add: createEmptySession_def)

text \<open>
  Claim C2, amended. Selecting a mode sets \<^verbatim>\<open>practiceType\<close> to it and leaves the
  objects of the other modes (sub-state, exercise, last transcript) exactly as they were:
  they are not reset to idle, and their exercises are kept. Selecting the active mode
  again leaves them untouched as well.
\<close>

theorem select_mode_frame:
  "practiceType (fst (handlePracticeChoice env m s)) = Some m
   \<and> (m \<noteq> Reading \<longrightarrow> reading (fst (handlePracticeChoice env m s)) = reading s)
   \<and> (m \<noteq> Listening \<longrightarrow> listening (fst (handlePracticeChoice env m s)) = listening s)
   \<and> (m \<noteq> Speaking \<longrightarrow> speaking (fst (handlePracticeChoice env m s)) = speaking s)"
  by (cases m)
     (simp_all add: handlePracticeChoice_def Let_def startReadingExercise_session
        startListeningExercise_session startSpeakingExercise_session split: sum.splits)


theorem select_mode_frame_witness:
  "Reading \<noteq> Speaking
   \<and> practiceType (fst (handlePracticeChoice envOk Reading
        (fst (handlePracticeChoice envOk Speaking createEmptySession)))) = Some Reading
   \<and> speaking (fst (handlePracticeChoice envOk Reading
        (fst (handlePracticeChoice envOk Speaking createEmptySession))))
      = speaking (fst (handlePracticeChoice envOk Speaking createEmptySession))"
  using select_mode_frame [of envOk Reading "fst (handlePracticeChoice envOk Speaking createEmptySession)"]
  by simp

text \<open>
  Claim C2 as stated fails: after the speaking mode was selected and a task generated,
  selecting the reading mode leaves the speaking sub-state waiting for a voice message.
\<close>

theorem select_mode_counterexample:
  "state (speaking (fst (handlePracticeChoice envOk Speaking createEmptySession))) = waiting_for_voice
   \<and> state (speaking (fst (handlePracticeChoice envOk Reading
        (fst (handlePracticeChoice envOk Speaking createEmptySession))))) \<noteq> idle"
  by (simp add: handlePracticeChoice_def Let_def startReadingExercise_session
        startSpeakingExercise_session generateSpeakingExercise_def generateReadingExercise_def
        envOk_def createEmptySession_def)

lemma voice_speaking_branch:
  assumes "practiceType s = Some Speaking" "state (speaking s) = waiting_for_voice"
    and "snd (transcribeAudioFromUrl (audio env) (files env) url) = Inr t"
  shows "voiceHandler env url s =
     evaluateVoice env s t [Sent VoiceReceived, Requested (TranscribeAudioFromUrl url)]"
  using assms by (simp add: voiceHandler_def)

lemma evaluateVoice_transcript:
  "lastTranscript (speaking (fst (evaluateVoice env s t sofar))) = Some t"
  by (simp add: evaluateVoice_def Let_def split: sum.splits jsval.splits)

lemma evaluateVoice_failure:
  assumes "getProp (exercise (speaking s)) ''topic'' = Inr topic"
    and "getProp (exercise (speaking s)) ''prompt_ko'' = Inr ko"
    and "getProp (exercise (speaking s)) ''prompt_ru'' = Inr ru"
    and "evaluateSpeakingResponse env (levelOrDefault s) topic ko ru t = Inl e"
  shows "fst (evaluateVoice env s t sofar) = s\<lparr>speaking := (speaking s)\<lparr>lastTranscript := Some t\<rparr>\<rparr>"
  using assms by (simp add: evaluateVoice_def Let_def)

lemma evaluateVoice_idle:
  assumes "state (speaking s) = waiting_for_voice"
    and "state (speaking (fst (evaluateVoice env s t sofar))) = idle"
  shows "\<exists>topic ko ru result.
           getProp (exercise (speaking s)) ''topic'' = Inr topic
         \<and> getProp (exercise (speaking s)) ''prompt_ko'' = Inr ko
         \<and> getProp (exercise (speaking s)) ''prompt_ru'' = Inr ru
         \<and> evaluateSpeakingResponse env (levelOrDefault s) topic ko ru t = Inr result"
  using assms by (auto simp add: evaluateVoice_def Let_def split: sum.splits)

text \<open>
  Claim C4. A voice message in the speaking mode, with the sub-state waiting for a voice
  message, whose transcription returns \<open>t\<close>: the session after the handler has
  \<open>lastTranscript = t\<close>; when the evaluation capability is called and throws, the session
  is the one before with only \<open>lastTranscript\<close> set, so the sub-state still waits for a
  voice message; and the sub-state is idle afterwards only if the evaluation capability
  was called and returned a result. The transcript is assigned before the evaluation is
  requested, which a failing evaluation makes visible.
\<close>

theorem voice_transcript_kept:
  assumes "practiceType s = Some Speaking" and "state (speaking s) = waiting_for_voice"
    and "snd (transcribeAudioFromUrl (audio env) (files env) url) = Inr t"
  shows "lastTranscript (speaking (fst (voiceHandler env url s))) = Some t
   \<and> (\<forall>topic ko ru e.
         getProp (exercise (speaking s)) ''topic'' = Inr topic \<longrightarrow>
         getProp (exercise (speaking s)) ''prompt_ko'' = Inr ko \<longrightarrow>
         getProp (exercise (speaking s)) ''prompt_ru'' = Inr ru \<longrightarrow>
         evaluateSpeakingResponse env (levelOrDefault s) topic ko ru t = Inl e \<longrightarrow>
           fst (voiceHandler env url s) = s\<lparr>speaking := (speaking s)\<lparr>lastTranscript := Some t\<rparr>\<rparr>
         \<and> state (speaking (fst (voiceHandler env url s))) = waiting_for_voice)
   \<and> (state (speaking (fst (voiceHandler env url s))) = idle \<longrightarrow>
        (\<exists>topic ko ru result.
           getProp (exercise (speaking s)) ''topic'' = Inr topic
         \<and> getProp (exercise (speaking s)) ''prompt_ko'' = Inr ko
         \<and> getProp (exercise (speaking s)) ''prompt_ru'' = Inr ru
         \<and> evaluateSpeakingResponse env (levelOrDefault s) topic ko ru t = Inr result))"
proof -
  let ?sofar = "[Sent VoiceReceived, Requested (TranscribeAudioFromUrl url)]"
  have branch: "voiceHandler env url s = evaluateVoice env s t ?sofar"
    using assms by (rule voice_speaking_branch)
  have stored: "lastTranscript (speaking (fst (voiceHandler env url s))) = Some t"
    unfolding branch by (rule evaluateVoice_transcript)
  have failing: "fst (voiceHandler env url s) = s\<lparr>speaking := (speaking s)\<lparr>lastTranscript := Some t\<rparr>\<rparr>
         \<and> state (speaking (fst (voiceHandler env url s))) = waiting_for_voice"
    if "getProp (exercise (speaking s)) ''topic'' = Inr topic"
      "getProp (exercise (speaking s)) ''prompt_ko'' = Inr ko"
      "getProp (exercise (speaking s)) ''prompt_ru'' = Inr ru"
      "evaluateSpeakingResponse env (levelOrDefault s) topic ko ru t = Inl e"
    for topic ko ru e
    unfolding branch using evaluateVoice_failure [OF that] assms(2) by simp
  have success: "\<exists>topic ko ru result.
           getProp (exercise (speaking s)) ''topic'' = Inr topic
         \<and> getProp (exercise (speaking s)) ''prompt_ko'' = Inr ko
         \<and> getProp (exercise (speaking s)) ''prompt_ru'' = Inr ru
         \<and> evaluateSpeakingResponse env (levelOrDefault s) topic ko ru t = Inr result"
    if "state (speaking (fst (voiceHandler env url s))) = idle"
    using that assms(2) unfolding branch by (rule evaluateVoice_idle [rotated])
  show ?thesis using stored failing success by blast
qed


lemma transcribe_audioOk:
  "transcribeAudioFromUrl audioOk {} url = ({}, Inr ''annyeong'')"
  by (auto simp add: transcribeAudioFromUrl_def audioOk_def Let_def unlink_def transcriptText_def
        trim_def isSpace_def)

theorem voice_transcript_kept_witness:
  "practiceType sampleSession = Some Speaking
   \<and> state (speaking sampleSession) = waiting_for_voice
   \<and> snd (transcribeAudioFromUrl audioOk {} ''https://example.org/voice.oga'') = Inr ''annyeong''
   \<and> getProp (exercise (speaking sampleSession)) ''topic'' = Inr (JStr ''food'')
   \<and> getProp (exercise (speaking sampleSession)) ''prompt_ko'' = Inr (JStr ''ko'')
   \<and> getProp (exercise (speaking sampleSession)) ''prompt_ru'' = Inr (JStr ''en'')
   \<and> evaluateSpeakingResponse
        (envOk\<lparr>speakingEvaluationResponse := (\<lambda>lvl topic ko ru transcript. Inl CapabilityError)\<rparr>)
        (levelOrDefault sampleSession) (JStr ''food'') (JStr ''ko'') (JStr ''en'') ''annyeong''
      = Inl CapabilityError
   \<and> lastTranscript (speaking (fst (voiceHandler
        (envOk\<lparr>speakingEvaluationResponse := (\<lambda>lvl topic ko ru transcript. Inl CapabilityError)\<rparr>)
        ''https://example.org/voice.oga'' sampleSession))) = Some ''annyeong''
   \<and> state (speaking (fst (voiceHandler
        (envOk\<lparr>speakingEvaluationResponse := (\<lambda>lvl topic ko ru transcript. Inl CapabilityError)\<rparr>)
        ''https://example.org/voice.oga'' sampleSession))) = waiting_for_voice
   \<and> state (speaking (fst (voiceHandler envOk ''https://example.org/voice.oga'' sampleSession))) = idle
   \<and> evaluateSpeakingResponse envOk (levelOrDefault sampleSession)
        (JStr ''food'') (JStr ''ko'') (JStr ''en'') ''annyeong'' = Inr (JObj [(''score'', JNum (Finite 8))])"
proof -
  let ?down = "envOk\<lparr>speakingEvaluationResponse := (\<lambda>lvl topic ko ru transcript. Inl CapabilityError)\<rparr>"
  let ?url = "''https://example.org/voice.oga''"
  have p: "practiceType sampleSession = Some Speaking"
    and w: "state (speaking sampleSession) = waiting_for_voice"
    and g: "getProp (exercise (speaking sampleSession)) ''topic'' = Inr (JStr ''food'')"
       "getProp (exercise (speaking sampleSession)) ''prompt_ko'' = Inr (JStr ''ko'')"
       "getProp (exercise (speaking sampleSession)) ''prompt_ru'' = Inr (JStr ''en'')"
    by (simp_all add: sampleSession_def sampleTask_def)
  have t: "snd (transcribeAudioFromUrl audioOk {} ?url) = Inr ''annyeong''"
    by (simp add: transcribe_audioOk)
  have tdown: "snd (transcribeAudioFromUrl (audio ?down) (files ?down) ?url) = Inr ''annyeong''"
    and tok: "snd (transcribeAudioFromUrl (audio envOk) (files envOk) ?url) = Inr ''annyeong''"
    by (simp_all add: envOk_def transcribe_audioOk)
  have e: "evaluateSpeakingResponse ?down (levelOrDefault sampleSession)
             (JStr ''food'') (JStr ''ko'') (JStr ''en'') ''annyeong'' = Inl CapabilityError"
    by (simp add: evaluateSpeakingResponse_def)
  have ok: "evaluateSpeakingResponse envOk (levelOrDefault sampleSession)
        (JStr ''food'') (JStr ''ko'') (JStr ''en'') ''annyeong'' = Inr (JObj [(''score'', JNum (Finite 8))])"
    by (simp add: evaluateSpeakingResponse_def envOk_def)
  have idle: "state (speaking (fst (voiceHandler envOk ?url sampleSession))) = idle"
    using p w tok g ok by (simp add: voiceHandler_def evaluateVoice_def Let_def)
  from voice_transcript_kept [OF p w tdown] g e
  have "lastTranscript (speaking (fst (voiceHandler ?down ?url sampleSession))) = Some ''annyeong''
      \<and> state (speaking (fst (voiceHandler ?down ?url sampleSession))) = waiting_for_voice"
    by blast
  moreover from voice_transcript_kept [OF p w tok] idle
  have "\<exists>topic ko ru result.
           getProp (exercise (speaking sampleSession)) ''topic'' = Inr topic
         \<and> getProp (exercise (speaking sampleSession)) ''prompt_ko'' = Inr ko
         \<and> getProp (exercise (speaking sampleSession)) ''prompt_ru'' = Inr ru
         \<and> evaluateSpeakingResponse envOk (levelOrDefault sampleSession) topic ko ru ''annyeong''
             = Inr result"
    by blast
  ultimately show ?thesis using p w t g e idle ok by simp
qed











lemma scored_frame [simp]:
  "reading (case score of JNum n \<Rightarrow> addScoreToStats s n | _ \<Rightarrow> s) = reading s"
  "listening (case score of JNum n \<Rightarrow> addScoreToStats s n | _ \<Rightarrow> s) = listening s"
  "speaking (case score of JNum n \<Rightarrow> addScoreToStats s n | _ \<Rightarrow> s) = speaking s"
  by (cases score; simp)+




lemma sampleSession_reached:
  "sampleSession =
     fst (handleUpdate envOk (Action PRACTICE_SPEAKING)
       (fst (handleUpdate envOk (Action PRACTICE_LISTENING)
         (fst (handleUpdate envOk (Action PRACTICE_READING) createEmptySession)))))"
  by (simp add: sampleSession_def handleUpdate_def handlePracticeChoice_def Let_def
        startReadingExercise_session startListeningExercise_session startSpeakingExercise_session
        generateSpeakingExercise_def generateReadingExercise_def envOk_def createEmptySession_def)


subsection \<open>Failures while an exercise is started\<close>

lemma generation_failure_keeps_session:
  assumes "generateReadingExercise env (levelOrDefault s) = Inl e"
  shows "startReadingExercise env s =
           (s, [Requested (GenerateReadingExercise (levelOrDefault s)), ErrorLogged,
                Sent GenerationFailed])"
    and "startListeningExercise env s =
           (s, [Requested (GenerateReadingExercise (levelOrDefault s)), ErrorLogged,
                Sent GenerationFailed])"
  using assms by (simp_all add: startReadingExercise_def startListeningExercise_def Let_def)

lemma synthesis_failure_changes_session:
  assumes "generateReadingExercise env (levelOrDefault s) = Inr ex"
    and "getProp ex ''text'' = Inr tx"
    and "ttsFromKoreanText env tx = Inl e"
  shows "startListeningExercise env s =
           (s\<lparr>listening := (listening s)\<lparr>state := waiting_for_answers, exercise := ex\<rparr>\<rparr>,
            [Requested (GenerateReadingExercise (levelOrDefault s)), Requested (TtsFromKoreanText tx),
             ErrorLogged, Sent GenerationFailed])"
  using assms by (simp add: startListeningExercise_def Let_def)

text \<open>
  Claim C3 fails on the code. With a fresh session, a generated exercise and a speech
  synthesis that throws, \<^verbatim>\<open>startListeningExercise\<close> reports the failure and leaves the
  listening sub-state waiting for answers with the new exercise stored.
\<close>

theorem listening_synthesis_failure:
  "ttsFromKoreanText (envOk\<lparr>speechCreate := (\<lambda>text. Inl CapabilityError)\<rparr>) (JStr ''annyeong'')
     = Inl CapabilityError
   \<and> startListeningExercise (envOk\<lparr>speechCreate := (\<lambda>text. Inl CapabilityError)\<rparr>) createEmptySession
     = (createEmptySession\<lparr>listening := \<lparr>state = waiting_for_answers, exercise = sampleExercise\<rparr>\<rparr>,
        [Requested (GenerateReadingExercise ''1''), Requested (TtsFromKoreanText (JStr ''annyeong'')),
         ErrorLogged, Sent GenerationFailed])
   \<and> listening (fst (startListeningExercise
         (envOk\<lparr>speechCreate := (\<lambda>text. Inl CapabilityError)\<rparr>) createEmptySession))
      \<noteq> listening createEmptySession"
  by (simp add: startListeningExercise_def Let_def generateReadingExercise_def ttsFromKoreanText_def
        envOk_def createEmptySession_def levelOrDefault_def sampleExercise_def)

subsection \<open>Scratch files of the audio ingestion\<close>

lemma transcription_failure_leaks:
  assumes "fetch env url = Inr res" and "ok res" and "arrayBuffer res = Inr buf"
    and "mkdir env = None" and "writeFile env (InputOga (now env)) = None"
    and "ffmpeg env (InputOga (now env)) (OutputMp3 (now env)) = Converted"
    and "transcriptionsCreate env (OutputMp3 (now env)) = Inl e"
  shows "transcribeAudioFromUrl env fs url =
           (insert (OutputMp3 (now env)) (insert (InputOga (now env)) fs), Inl e)"
  using assms by (simp add: transcribeAudioFromUrl_def Let_def)

lemma transcode_failure_leaks:
  assumes "fetch env url = Inr res" and "ok res" and "arrayBuffer res = Inr buf"
    and "mkdir env = None" and "writeFile env (InputOga (now env)) = None"
    and "ffmpeg env (InputOga (now env)) (OutputMp3 (now env)) = ConversionError left"
  shows "InputOga (now env) \<in> fst (transcribeAudioFromUrl env fs url)"
    and "snd (transcribeAudioFromUrl env fs url) = Inl TranscodeFailed"
  using assms by (simp_all add: transcribeAudioFromUrl_def Let_def)

lemma success_deletes_scratch:
  assumes "fetch env url = Inr res" and "ok res" and "arrayBuffer res = Inr buf"
    and "mkdir env = None" and "writeFile env (InputOga (now env)) = None"
    and "ffmpeg env (InputOga (now env)) (OutputMp3 (now env)) = Converted"
    and "transcriptionsCreate env (OutputMp3 (now env)) = Inr tr"
    and "\<not> unlinkRejects env (InputOga (now env))" and "\<not> unlinkRejects env (OutputMp3 (now env))"
  shows "fst (transcribeAudioFromUrl env fs url) =
           fs - {InputOga (now env), OutputMp3 (now env)}"
  using assms by (auto simp add: transcribeAudioFromUrl_def Let_def unlink_def)

text \<open>
  Claim C1 fails on the code. When the download, the write and the transcoding succeed
  and the transcription capability throws, \<^verbatim>\<open>transcribeAudioFromUrl\<close> throws with both
  scratch files still on the file system.
\<close>

theorem transcription_failure_leaves_scratch:
  "transcribeAudioFromUrl (audioOk\<lparr>transcriptionsCreate := (\<lambda>p. Inl CapabilityError)\<rparr>) {}
     ''https://example.org/voice.oga''
   = ({OutputMp3 1700000000000, InputOga 1700000000000}, Inl CapabilityError)"
  by (simp add: transcribeAudioFromUrl_def audioOk_def Let_def)

subsection \<open>Reachable sessions\<close>

lemma exercisePresent_frame:
  assumes "reading s' = reading s" and "listening s' = listening s" and "speaking s' = speaking s"
  shows "exercisePresent s' = exercisePresent s"
  using assms by (simp add: exercisePresent_def)

lemma exercisePresent_fresh: "exercisePresent createEmptySession"
  by (simp add: exercisePresent_def createEmptySession_def waiting_def)

lemma exercisePresent_addScore [simp]: "exercisePresent (addScoreToStats s n) = exercisePresent s"
  by (rule exercisePresent_frame) simp_all

lemma exercisePresent_startReading:
  assumes "truthyExercises env" and "exercisePresent s"
  shows "exercisePresent (fst (startReadingExercise env s))"
  using assms
  by (auto simp add: startReadingExercise_session generateReadingExercise_def truthyExercises_def
        exercisePresent_def split: sum.splits)

lemma exercisePresent_startListening:
  assumes "truthyExercises env" and "exercisePresent s"
  shows "exercisePresent (fst (startListeningExercise env s))"
  using assms
  by (auto simp add: startListeningExercise_session generateReadingExercise_def truthyExercises_def
        exercisePresent_def split: sum.splits)

lemma exercisePresent_startSpeaking:
  assumes "truthyExercises env" and "exercisePresent s"
  shows "exercisePresent (fst (startSpeakingExercise env s))"
  using assms
  by (auto simp add: startSpeakingExercise_session generateSpeakingExercise_def truthyExercises_def
        exercisePresent_def split: sum.splits)

lemma exercisePresent_practiceType [simp]:
  "exercisePresent (s\<lparr>practiceType := p\<rparr>) = exercisePresent s"
  "exercisePresent (s\<lparr>level := l\<rparr>) = exercisePresent s"
  by (simp_all add: exercisePresent_def)

lemma exercisePresent_idle:
  assumes "exercisePresent s"
  shows "exercisePresent (s\<lparr>reading := (reading s)\<lparr>state := idle\<rparr>\<rparr>)"
    and "exercisePresent (s\<lparr>listening := (listening s)\<lparr>state := idle\<rparr>\<rparr>)"
    and "exercisePresent (s\<lparr>speaking := (speaking s)\<lparr>state := idle\<rparr>\<rparr>)"
    and "exercisePresent (s\<lparr>speaking := (speaking s)\<lparr>lastTranscript := t\<rparr>\<rparr>)"
  using assms by (simp_all add: exercisePresent_def waiting_def)

lemma exercisePresent_checkAnswers:
  assumes "exercisePresent s" and "\<And>s. exercisePresent s \<Longrightarrow> exercisePresent (setIdle s)"
  shows "exercisePresent (fst (checkAnswers env setIdle s lvl ex a))"
  using checkAnswers_session [of env setIdle s lvl ex a] assms by auto

lemma exercisePresent_readingAnswers:
  assumes "exercisePresent s"
  shows "exercisePresent (fst (handleReadingAnswers env s a))"
  using assms
  by (simp add: handleReadingAnswers_def exercisePresent_checkAnswers exercisePresent_idle)

lemma exercisePresent_listeningAnswers:
  assumes "exercisePresent s"
  shows "exercisePresent (fst (handleListeningAnswers env s a))"
  using assms
  by (simp add: handleListeningAnswers_def exercisePresent_checkAnswers exercisePresent_idle)

lemma exercisePresent_evaluateVoice:
  assumes "exercisePresent s"
  shows "exercisePresent (fst (evaluateVoice env s t sofar))"
  using assms
  by (auto simp add: evaluateVoice_def Let_def exercisePresent_def waiting_def
        split: sum.splits jsval.splits)

lemma exercisePresent_voice:
  assumes "exercisePresent s"
  shows "exercisePresent (fst (voiceHandler env url s))"
  using assms
  by (simp add: voiceHandler_def exercisePresent_evaluateVoice split: sum.splits)

lemma exercisePresent_text:
  assumes "exercisePresent s"
  shows "exercisePresent (fst (textHandler env text s))"
  using assms
  by (simp add: textHandler_def exercisePresent_readingAnswers exercisePresent_listeningAnswers)

lemma exercisePresent_practiceChoice:
  assumes "truthyExercises env" and "exercisePresent s"
  shows "exercisePresent (fst (handlePracticeChoice env m s))"
  using assms
  by (cases m)
     (simp_all add: handlePracticeChoice_def Let_def exercisePresent_startReading
        exercisePresent_startListening exercisePresent_startSpeaking)

lemma exercisePresent_next:
  assumes "exercisePresent s"
    and "\<And>s. exercisePresent s \<Longrightarrow> exercisePresent (fst (start s))"
  shows "exercisePresent (fst (nextExercise m start s))"
  using assms by (simp add: nextExercise_def Let_def)

lemma showProgress_session [simp]: "fst (showProgress s) = s"
  by (simp add: showProgress_def Let_def split: sum.splits)

lemma exercisePresent_handleUpdate:
  assumes "truthyExercises env" and "exercisePresent s"
  shows "exercisePresent (fst (handleUpdate env u s))"
proof (cases u)
  case StartCommand
  then show ?thesis by (simp add: handleUpdate_def exercisePresent_fresh)
next
  case (Action a)
  then show ?thesis using assms
    by (cases a)
       (simp_all add: handleUpdate_def exercisePresent_practiceChoice exercisePresent_next
          exercisePresent_startReading exercisePresent_startListening exercisePresent_startSpeaking)
next
  case (TextMessage msg)
  then show ?thesis using assms
    by (simp add: handleUpdate_def exercisePresent_text)
next
  case (VoiceMessage url)
  then show ?thesis using assms
    by (simp add: handleUpdate_def exercisePresent_voice)
qed

lemma getSession_reachable:
  assumes "\<And>s. st userId = Some s \<Longrightarrow> reachable P s"
  shows "reachable P (snd (getSession st userId))"
  using assms by (simp add: getSession_def reachable.fresh split: option.splits)

lemma getSession_other:
  "other \<noteq> userId \<Longrightarrow> fst (getSession st userId) other = st other"
  by (simp add: getSession_def split: option.splits)

lemma handleFor_same:
  "fst (handleFor env userId u st) userId =
     Some (fst (handleUpdate env u (snd (getSession st userId))))"
  by (cases u) (simp_all add: handleFor_def resetSession_def handleUpdate_def Let_def)

lemma handleFor_other:
  "other \<noteq> userId \<Longrightarrow> fst (handleFor env userId u st) other = st other"
  by (cases u) (simp_all add: handleFor_def resetSession_def Let_def getSession_other)

lemma stored_sessions_reachable:
  assumes "reachableStore P st" and "st userId = Some s"
  shows "reachable P s"
  using assms
proof (induction arbitrary: userId s rule: reachableStore.induct)
  case empty
  then show ?case by simp
next
  case (handled st env who u)
  show ?case
  proof (cases "userId = who")
    case True
    with handled.prems have "s = fst (handleUpdate env u (snd (getSession st who)))"
      by (simp add: handleFor_same)
    moreover have "reachable P (snd (getSession st who))"
      by (rule getSession_reachable) (rule handled.IH)
    ultimately show ?thesis using handled.hyps(2) by (simp add: reachable.step)
  next
    case False
    with handled.prems have "st userId = Some s" by (simp add: handleFor_other)
    then show ?thesis by (rule handled.IH)
  qed
qed

lemma reachable_exercisePresent:
  assumes "reachable truthyExercises s"
  shows "exercisePresent s"
  using assms
proof (induction rule: reachable.induct)
  case fresh
  show ?case by (rule exercisePresent_fresh)
next
  case (step s env u)
  then show ?case by (simp add: exercisePresent_handleUpdate)
qed

text \<open>
  Apart from a generation capability that returns a falsy value, a waiting mode has its
  exercise: in every reachable session and in every session of a reachable store.
\<close>

lemma waiting_has_exercise_if_truthy:
  "(reachable truthyExercises s \<longrightarrow> exercisePresent s)
   \<and> (reachableStore truthyExercises st \<longrightarrow> st userId = Some s' \<longrightarrow> exercisePresent s')"
  using reachable_exercisePresent stored_sessions_reachable by blast

text \<open>
  Claim C7 fails on the code. When the reading generation answers the JSON literal
  \<^verbatim>\<open>null\<close>, selecting the reading mode on a fresh session reports that the generation
  failed and yet leaves the reading sub-state waiting for answers with the exercise
  \<^verbatim>\<open>null\<close>; the next text message is answered with the message that there is no active
  task. When the speaking generation answers \<^verbatim>\<open>null\<close>, selecting the speaking mode
  leaves the speaking sub-state waiting for a voice message with the exercise \<^verbatim>\<open>null\<close>.
  Both sessions are reachable.
\<close>

theorem waiting_without_exercise:
  "handleUpdate (envOk\<lparr>readingExerciseResponse := (\<lambda>lvl. Inr JNull)\<rparr>)
     (Action PRACTICE_READING) createEmptySession
   = (createEmptySession
        \<lparr>practiceType := Some Reading,
         reading := \<lparr>state = waiting_for_answers, exercise = JNull\<rparr>\<rparr>,
      [Sent CallbackAnswered, Sent PreparingReading, Requested (GenerateReadingExercise ''1''),
       ErrorLogged, Sent GenerationFailed])
   \<and> reachable (\<lambda>env. True)
        (createEmptySession
           \<lparr>practiceType := Some Reading,
            reading := \<lparr>state = waiting_for_answers, exercise = JNull\<rparr>\<rparr>)
   \<and> snd (handleUpdate envOk (TextMessage ''1 a 2 b'')
        (createEmptySession
           \<lparr>practiceType := Some Reading,
            reading := \<lparr>state = waiting_for_answers, exercise = JNull\<rparr>\<rparr>))
       = [Sent NoActiveTask]
   \<and> handleUpdate (envOk\<lparr>speakingExerciseResponse := (\<lambda>lvl. Inr JNull)\<rparr>)
     (Action PRACTICE_SPEAKING) createEmptySession
   = (createEmptySession
        \<lparr>practiceType := Some Speaking,
         speaking := \<lparr>state = waiting_for_voice, exercise = JNull, lastTranscript = None\<rparr>\<rparr>,
      [Sent CallbackAnswered, Sent PreparingSpeaking, Requested (GenerateSpeakingExercise ''1''),
       ErrorLogged, Sent GenerationFailed])
   \<and> reachable (\<lambda>env. True)
        (createEmptySession
           \<lparr>practiceType := Some Speaking,
            speaking := \<lparr>state = waiting_for_voice, exercise = JNull, lastTranscript = None\<rparr>\<rparr>)"
proof -
  let ?renv = "envOk\<lparr>readingExerciseResponse := (\<lambda>lvl. Inr JNull)\<rparr>"
  let ?senv = "envOk\<lparr>speakingExerciseResponse := (\<lambda>lvl. Inr JNull)\<rparr>"
  let ?r = "createEmptySession
              \<lparr>practiceType := Some Reading,
               reading := \<lparr>state = waiting_for_answers, exercise = JNull\<rparr>\<rparr>"
  let ?s = "createEmptySession
              \<lparr>practiceType := Some Speaking,
               speaking := \<lparr>state = waiting_for_voice, exercise = JNull, lastTranscript = None\<rparr>\<rparr>"
  have a: "handleUpdate ?renv (Action PRACTICE_READING) createEmptySession =
             (?r, [Sent CallbackAnswered, Sent PreparingReading,
                   Requested (GenerateReadingExercise ''1''), ErrorLogged, Sent GenerationFailed])"
    by (simp add: handleUpdate_def handlePracticeChoice_def emit_def startReadingExercise_def
          Let_def generateReadingExercise_def levelOrDefault_def createEmptySession_def)
  have b: "handleUpdate ?senv (Action PRACTICE_SPEAKING) createEmptySession =
             (?s, [Sent CallbackAnswered, Sent PreparingSpeaking,
                   Requested (GenerateSpeakingExercise ''1''), ErrorLogged, Sent GenerationFailed])"
    by (simp add: handleUpdate_def handlePracticeChoice_def emit_def startSpeakingExercise_def
          Let_def generateSpeakingExercise_def levelOrDefault_def createEmptySession_def)
  have "reachable (\<lambda>env. True) (fst (handleUpdate ?renv (Action PRACTICE_READING) createEmptySession))"
    by (rule reachable.step [OF reachable.fresh]) simp
  then have ra: "reachable (\<lambda>env. True) ?r" by (simp only: a fst_conv)
  have "reachable (\<lambda>env. True) (fst (handleUpdate ?senv (Action PRACTICE_SPEAKING) createEmptySession))"
    by (rule reachable.step [OF reachable.fresh]) simp
  then have rb: "reachable (\<lambda>env. True) ?s" by (simp only: b fst_conv)
  have c: "snd (handleUpdate envOk (TextMessage ''1 a 2 b'') ?r) = [Sent NoActiveTask]"
    by (simp add: handleUpdate_def textHandler_def handleReadingAnswers_def CHANGE_LEVEL_TEXT_def
          CHANGE_MODE_TEXT_def SHOW_PROGRESS_TEXT_def createEmptySession_def)
  from a b ra rb c show ?thesis by simp
qed

lemma stats_frame [simp]:
  "stats (fst (startReadingExercise env s)) = stats s"
  "stats (fst (startListeningExercise env s)) = stats s"
  "stats (fst (startSpeakingExercise env s)) = stats s"
  by (simp_all add: startReadingExercise_session startListeningExercise_session
        startSpeakingExercise_session split: sum.splits)

lemma addScoreToStats_nonneg:
  "0 \<le> totalScore (stats s) \<Longrightarrow> 0 \<le> totalScore (stats (addScoreToStats s n))"
  by (cases n) (simp_all add: addScoreToStats_def Let_def)

lemma checkAnswers_nonneg:
  assumes "0 \<le> totalScore (stats s)" and "\<And>s. stats (setIdle s) = stats s"
  shows "0 \<le> totalScore (stats (fst (checkAnswers env setIdle s lvl ex a)))"
  using checkAnswers_session [of env setIdle s lvl ex a] assms addScoreToStats_nonneg by auto

lemma handleUpdate_nonneg:
  assumes "0 \<le> totalScore (stats s)"
  shows "0 \<le> totalScore (stats (fst (handleUpdate env u s)))"
proof (cases u)
  case StartCommand
  then show ?thesis by (simp add: handleUpdate_def createEmptySession_def)
next
  case (Action a)
  then show ?thesis using assms
    by (cases a) (simp_all add: handleUpdate_def handlePracticeChoice_def nextExercise_def Let_def
          split: practice.splits)
next
  case (TextMessage msg)
  then show ?thesis using assms
    by (simp add: handleUpdate_def textHandler_def handleReadingAnswers_def
          handleListeningAnswers_def checkAnswers_nonneg)
next
  case (VoiceMessage url)
  then show ?thesis using assms addScoreToStats_nonneg
    by (auto simp add: handleUpdate_def voiceHandler_def evaluateVoice_def Let_def
          split: sum.splits jsval.splits)
qed

lemma totalScore_never_negative:
  assumes "reachable P s"
  shows "0 \<le> totalScore (stats s)"
  using assms
proof (induction rule: reachable.induct)
  case fresh
  show ?case by (simp add: createEmptySession_def)
next
  case (step s env u)
  then show ?case by (simp add: handleUpdate_nonneg)
qed

text \<open>
  Claim C5. For a finite delta \<open>d\<close>, \<^verbatim>\<open>addScoreToStats\<close> stores \<open>max 0 (t + d)\<close>, which is
  never negative; for a delta that is not finite (NaN or an infinity) it returns the
  session as it was; so a total that is not negative stays so after any delta, and the
  total of every reachable session is not negative. Finite numbers are exact rationals
  here.
\<close>

theorem addScoreToStats_floor:
  "totalScore (stats (addScoreToStats s (Finite d))) = max 0 (totalScore (stats s) + d)
   \<and> 0 \<le> totalScore (stats (addScoreToStats s (Finite d)))
   \<and> (\<not> isFinite n \<longrightarrow> addScoreToStats s n = s)
   \<and> (0 \<le> totalScore (stats s) \<longrightarrow> 0 \<le> totalScore (stats (addScoreToStats s n)))
   \<and> (reachable P r \<longrightarrow> 0 \<le> totalScore (stats r))"
proof -
  have "totalScore (stats (addScoreToStats s (Finite d))) = max 0 (totalScore (stats s) + d)"
    by (simp add: addScoreToStats_def Let_def)
  moreover have "\<not> isFinite n \<longrightarrow> addScoreToStats s n = s"
    by (cases n) (simp_all add: addScoreToStats_def)
  ultimately show ?thesis
    using addScoreToStats_nonneg [of s n] totalScore_never_negative [of P r] by simp
qed

theorem addScoreToStats_floor_witness:
  "\<not> isFinite NaN \<and> addScoreToStats createEmptySession NaN = createEmptySession
   \<and> 0 \<le> totalScore (stats createEmptySession)
   \<and> totalScore (stats (addScoreToStats createEmptySession (Finite (-5)))) = 0
   \<and> totalScore (stats (addScoreToStats createEmptySession (Finite 7))) = 7
   \<and> reachable (\<lambda>env. True) (fst (handleUpdate envOk (Action PRACTICE_READING) createEmptySession))
   \<and> 0 \<le> totalScore (stats (fst (handleUpdate envOk (Action PRACTICE_READING) createEmptySession)))"
proof -
  have r: "reachable (\<lambda>env. True)
             (fst (handleUpdate envOk (Action PRACTICE_READING) createEmptySession))"
    by (rule reachable.step [OF reachable.fresh]) simp
  show ?thesis
    using r
      addScoreToStats_floor [of createEmptySession "-5" NaN "\<lambda>env. True"
        "fst (handleUpdate envOk (Action PRACTICE_READING) createEmptySession)"]
      addScoreToStats_floor [of createEmptySession 7 "Finite 7" "\<lambda>env. True" createEmptySession]
    by (simp add: createEmptySession_def)
qed

end
